theory Spec2Isabelle
  imports Main
begin

section \<open>Python strings\<close>

text \<open>
  A Python \<open>str\<close> is modelled as a \<open>string\<close> whose characters stand for the code points
  U+0000 to U+00FF. \<open>py_isspace\<close> lists the code points of that range for which
  \<open>str.isspace\<close> holds; \<open>str.strip()\<close> and \<open>str.split()\<close> (both called without
  arguments in \<open>main.py\<close>) cut at exactly these characters.
\<close>

definition py_isspace :: "char \<Rightarrow> bool" where
  "py_isspace c = (c \<in> set [CHR 0x09, CHR 0x0A, CHR 0x0B, CHR 0x0C, CHR 0x0D,
                              CHR 0x1C, CHR 0x1D, CHR 0x1E, CHR 0x1F, CHR 0x20,
                              CHR 0x85, CHR 0xA0])"

definition py_lstrip :: "string \<Rightarrow> string" where
  "py_lstrip s = dropWhile py_isspace s"

definition py_rstrip :: "string \<Rightarrow> string" where
  "py_rstrip s = rev (dropWhile py_isspace (rev s))"

definition py_strip :: "string \<Rightarrow> string" where
  "py_strip s = py_rstrip (py_lstrip s)"

text \<open>
  \<open>s.split()\<close>: the maximal runs of non-whitespace characters of \<open>s\<close>, left to right.
  The second argument holds the current token, reversed.
\<close>

fun split_from :: "string \<Rightarrow> string \<Rightarrow> string list" where
  "split_from [] cur = (if cur = [] then [] else [rev cur])"
| "split_from (c # cs) cur =
     (if py_isspace c
      then (if cur = [] then split_from cs [] else rev cur # split_from cs [])
      else split_from cs (c # cur))"

definition py_split :: "string \<Rightarrow> string list" where
  "py_split s = split_from s []"

text \<open>\<open>sep.join(xs)\<close>.\<close>

fun py_join :: "string \<Rightarrow> string list \<Rightarrow> string" where
  "py_join sep [] = []"
| "py_join sep [x] = x"
| "py_join sep (x # y # ys) = x @ sep @ py_join sep (y # ys)"

text \<open>\<open>xs.insert(i, x)\<close> for an index \<open>i \<ge> 0\<close>: past the end it appends.\<close>

definition py_insert :: "nat \<Rightarrow> 'a \<Rightarrow> 'a list \<Rightarrow> 'a list" where
  "py_insert i x xs = take i xs @ x # drop i xs"

section \<open>The world outside the handlers\<close>

text \<open>
  The file system is read through \<open>Path.cwd()\<close>, \<open>Path(p).resolve()\<close> and
  \<open>Path.exists()\<close>. Each of them may raise; \<open>Inl e\<close> is an exception whose \<open>str\<close> is
  \<open>e\<close>. A path is carried as the text \<open>str(path)\<close>.
\<close>

record env =
  fs_cwd :: "string + string"
  fs_resolve :: "string \<Rightarrow> string + string"
  fs_exists :: "string \<Rightarrow> string + bool"

text \<open>\<open>repo_path / name\<close> on an absolute POSIX path.\<close>

definition path_div :: "string \<Rightarrow> string \<Rightarrow> string" where
  "path_div p name = (if p = ''/'' then p @ name else p @ ''/'' @ name)"

text \<open>
  One call of \<open>subprocess.run(cmd, cwd=..., capture_output=True, text=True, timeout=...)\<close>:
  the argument vector, the working directory and the timeout in seconds. The call ends in a
  \<open>CompletedProcess\<close> (return code, stdout, stderr), in \<open>subprocess.TimeoutExpired\<close>, or
  in another exception (for instance the executable is missing).
\<close>

type_synonym invocation = "string list \<times> string \<times> nat"

datatype proc_result =
    CompletedProcess int string string
  | TimeoutExpired
  | OtherException string

type_synonym executor = "invocation \<Rightarrow> proc_result"

text \<open>
  A handler returns a dictionary; its items are kept in the order of the literal in the
  source. Next to it the model returns the calls of \<open>subprocess.run\<close> the handler has
  made, oldest first: the external processes it has spawned. A call that raises is listed
  as well, also when it raises because the executable could not be started. The
  executor is a function of the call, which is what a test double for \<open>subprocess.run\<close>
  is; the two calls one \<open>git_push\<close> can make differ in their argument vector, so
  their outcomes are independent.
\<close>

type_synonym tool_result = "(string \<times> string) list"

section \<open>The handlers\<close>

text \<open>
  \<open>if x:\<close> on an \<open>Optional[str]\<close>: false for \<open>None\<close> and for the empty string.
\<close>

definition py_truthy :: "string option \<Rightarrow> bool" where
  "py_truthy x = (case x of None \<Rightarrow> False | Some s \<Rightarrow> s \<noteq> [])"

text \<open>
  Every handler is one \<open>try\<close> block. An exception raised inside it, other than
  \<open>TimeoutExpired\<close>, ends in the \<open>Unexpected error\<close> dictionary of the last
  \<open>except\<close> clause. The first component of the value is the returned dictionary, the
  second the processes spawned by the call.
\<close>

definition git_add ::
  "env \<Rightarrow> executor \<Rightarrow> string option \<Rightarrow> bool \<Rightarrow> bool \<Rightarrow> bool \<Rightarrow> string option
     \<Rightarrow> tool_result \<times> invocation list" where
  "git_add env run files all_files interactive patch repository_path =
    (case
       (if py_truthy repository_path then
          (case fs_resolve env (the repository_path) of
             Inl e \<Rightarrow> Inl (Inl e)
           | Inr rp \<Rightarrow>
              (case fs_exists env rp of
                 Inl e \<Rightarrow> Inl (Inl e)
               | Inr b \<Rightarrow>
                  if \<not> b then
                    Inl (Inr [(''status'', ''error''),
                              (''message'', ''Repository path does not exist: ''
                                              @ the repository_path)])
                  else Inr rp))
        else (case fs_cwd env of Inl e \<Rightarrow> Inl (Inl e) | Inr d \<Rightarrow> Inr d))
     of
       Inl (Inl e) \<Rightarrow>
         ([(''status'', ''error''), (''message'', ''Unexpected error: '' @ e)], [])
     | Inl (Inr r) \<Rightarrow> (r, [])
     | Inr repo_path \<Rightarrow>
        (case fs_exists env (path_div repo_path ''.git'') of
           Inl e \<Rightarrow>
             ([(''status'', ''error''), (''message'', ''Unexpected error: '' @ e)], [])
         | Inr b \<Rightarrow>
            if \<not> b then
              ([(''status'', ''error''),
                (''message'', ''Not a git repository: '' @ repo_path)], [])
            else
              (case
                 (if interactive then Some [''git'', ''add'', ''--interactive'']
                  else if patch then Some [''git'', ''add'', ''--patch'']
                  else if all_files then Some [''git'', ''add'', ''.'']
                  else if py_truthy files then
                    Some ([''git'', ''add''] @ py_split (py_strip (the files)))
                  else None)
               of
                 None \<Rightarrow>
                   ([(''status'', ''error''),
                     (''message'', ''Must specify either files, all_files=True, interactive=True, or patch=True'')],
                    [])
               | Some cmd \<Rightarrow>
                  (let call = (cmd, repo_path, 30)
                   in case run call of
                        CompletedProcess returncode out err \<Rightarrow>
                          if returncode = 0 then
                            ([(''status'', ''success''),
                              (''message'', ''Files successfully added to staging area''),
                              (''command'', py_join '' '' cmd),
                              (''stdout'', if py_strip out \<noteq> [] then py_strip out
                                           else ''No output''),
                              (''repository_path'', repo_path)], [call])
                          else
                            ([(''status'', ''error''),
                              (''message'', ''Git add command failed''),
                              (''command'', py_join '' '' cmd),
                              (''stderr'', py_strip err),
                              (''repository_path'', repo_path)], [call])
                      | TimeoutExpired \<Rightarrow>
                          ([(''status'', ''error''),
                            (''message'', ''Git add command timed out after 30 seconds'')],
                           [call])
                      | OtherException e \<Rightarrow>
                          ([(''status'', ''error''),
                            (''message'', ''Unexpected error: '' @ e)], [call])))))"

definition git_commit ::
  "env \<Rightarrow> executor \<Rightarrow> string \<Rightarrow> bool \<Rightarrow> bool \<Rightarrow> string option
     \<Rightarrow> tool_result \<times> invocation list" where
  "git_commit env run message all_files amend repository_path =
    (if py_strip message = [] then
       ([(''status'', ''error''), (''message'', ''Commit message cannot be empty'')], [])
     else
    (case
       (if py_truthy repository_path then
          (case fs_resolve env (the repository_path) of
             Inl e \<Rightarrow> Inl (Inl e)
           | Inr rp \<Rightarrow>
              (case fs_exists env rp of
                 Inl e \<Rightarrow> Inl (Inl e)
               | Inr b \<Rightarrow>
                  if \<not> b then
                    Inl (Inr [(''status'', ''error''),
                              (''message'', ''Repository path does not exist: ''
                                              @ the repository_path)])
                  else Inr rp))
        else (case fs_cwd env of Inl e \<Rightarrow> Inl (Inl e) | Inr d \<Rightarrow> Inr d))
     of
       Inl (Inl e) \<Rightarrow>
         ([(''status'', ''error''), (''message'', ''Unexpected error: '' @ e)], [])
     | Inl (Inr r) \<Rightarrow> (r, [])
     | Inr repo_path \<Rightarrow>
        (case fs_exists env (path_div repo_path ''.git'') of
           Inl e \<Rightarrow>
             ([(''status'', ''error''), (''message'', ''Unexpected error: '' @ e)], [])
         | Inr b \<Rightarrow>
            if \<not> b then
              ([(''status'', ''error''),
                (''message'', ''Not a git repository: '' @ repo_path)], [])
            else
              (let cmd0 = [''git'', ''commit'', ''-m'', message];
                   cmd1 = (if all_files then py_insert 2 ''-a'' cmd0 else cmd0);
                   cmd = (if amend then py_insert 2 ''--amend'' cmd1 else cmd1);
                   call = (cmd, repo_path, 30)
               in case run call of
                    CompletedProcess returncode out err \<Rightarrow>
                      if returncode = 0 then
                        ([(''status'', ''success''),
                          (''message'', ''Commit created successfully''),
                          (''command'', py_join '' '' cmd),
                          (''stdout'', py_strip out),
                          (''repository_path'', repo_path)], [call])
                      else
                        ([(''status'', ''error''),
                          (''message'', ''Git commit command failed''),
                          (''command'', py_join '' '' cmd),
                          (''stderr'', py_strip err),
                          (''repository_path'', repo_path)], [call])
                  | TimeoutExpired \<Rightarrow>
                      ([(''status'', ''error''),
                        (''message'', ''Git commit command timed out after 30 seconds'')],
                       [call])
                  | OtherException e \<Rightarrow>
                      ([(''status'', ''error''),
                        (''message'', ''Unexpected error: '' @ e)], [call])))))"

text \<open>
  In \<open>git_push\<close> the branch is looked up with a first process when the caller gave
  none. The lookup sits in the same \<open>try\<close> block as the push, so its
  \<open>TimeoutExpired\<close> reaches the same \<open>except\<close> clause.
\<close>

definition git_push ::
  "env \<Rightarrow> executor \<Rightarrow> string \<Rightarrow> string option \<Rightarrow> bool \<Rightarrow> bool \<Rightarrow> string option
     \<Rightarrow> tool_result \<times> invocation list" where
  "git_push env run remote branch force set_upstream repository_path =
    (case
       (if py_truthy repository_path then
          (case fs_resolve env (the repository_path) of
             Inl e \<Rightarrow> Inl (Inl e)
           | Inr rp \<Rightarrow>
              (case fs_exists env rp of
                 Inl e \<Rightarrow> Inl (Inl e)
               | Inr b \<Rightarrow>
                  if \<not> b then
                    Inl (Inr [(''status'', ''error''),
                              (''message'', ''Repository path does not exist: ''
                                              @ the repository_path)])
                  else Inr rp))
        else (case fs_cwd env of Inl e \<Rightarrow> Inl (Inl e) | Inr d \<Rightarrow> Inr d))
     of
       Inl (Inl e) \<Rightarrow>
         ([(''status'', ''error''), (''message'', ''Unexpected error: '' @ e)], [])
     | Inl (Inr r) \<Rightarrow> (r, [])
     | Inr repo_path \<Rightarrow>
        (case fs_exists env (path_div repo_path ''.git'') of
           Inl e \<Rightarrow>
             ([(''status'', ''error''), (''message'', ''Unexpected error: '' @ e)], [])
         | Inr b \<Rightarrow>
            if \<not> b then
              ([(''status'', ''error''),
                (''message'', ''Not a git repository: '' @ repo_path)], [])
            else
              (case
                 (case branch of
                    Some b \<Rightarrow> Inr (b, [])
                  | None \<Rightarrow>
                     (let query = ([''git'', ''branch'', ''--show-current''], repo_path, 10)
                      in case run query of
                           CompletedProcess returncode out err \<Rightarrow>
                             if returncode = 0 then
                               (if py_strip out = [] then
                                  Inl ([(''status'', ''error''),
                                        (''message'', ''Could not determine current branch'')],
                                       [query])
                                else Inr (py_strip out, [query]))
                             else
                               Inl ([(''status'', ''error''),
                                     (''message'', ''Failed to get current branch''),
                                     (''stderr'', py_strip err)], [query])
                         | TimeoutExpired \<Rightarrow>
                             Inl ([(''status'', ''error''),
                                   (''message'', ''Git push command timed out after 2 minutes'')],
                                  [query])
                         | OtherException e \<Rightarrow>
                             Inl ([(''status'', ''error''),
                                   (''message'', ''Unexpected error: '' @ e)], [query])))
               of
                 Inl early \<Rightarrow> early
               | Inr (branch', spawned) \<Rightarrow>
                  (let cmd0 = [''git'', ''push''];
                       cmd1 = (if set_upstream then cmd0 @ [''-u'', remote, branch']
                               else cmd0 @ [remote, branch']);
                       cmd = (if force then py_insert 2 ''--force'' cmd1 else cmd1);
                       call = (cmd, repo_path, 120)
                   in case run call of
                        CompletedProcess returncode out err \<Rightarrow>
                          if returncode = 0 then
                            ([(''status'', ''success''),
                              (''message'', ''Successfully pushed to '' @ remote @ ''/'' @ branch'),
                              (''command'', py_join '' '' cmd),
                              (''stdout'', py_strip out),
                              (''stderr'', py_strip err),
                              (''repository_path'', repo_path)], spawned @ [call])
                          else
                            ([(''status'', ''error''),
                              (''message'', ''Git push to '' @ remote @ ''/'' @ branch' @ '' failed''),
                              (''command'', py_join '' '' cmd),
                              (''stderr'', py_strip err),
                              (''repository_path'', repo_path)], spawned @ [call])
                      | TimeoutExpired \<Rightarrow>
                          ([(''status'', ''error''),
                            (''message'', ''Git push command timed out after 2 minutes'')],
                           spawned @ [call])
                      | OtherException e \<Rightarrow>
                          ([(''status'', ''error''),
                            (''message'', ''Unexpected error: '' @ e)], spawned @ [call])))))"

definition git_status ::
  "env \<Rightarrow> executor \<Rightarrow> string option \<Rightarrow> tool_result \<times> invocation list" where
  "git_status env run repository_path =
    (case
       (if py_truthy repository_path then
          (case fs_resolve env (the repository_path) of
             Inl e \<Rightarrow> Inl (Inl e)
           | Inr rp \<Rightarrow>
              (case fs_exists env rp of
                 Inl e \<Rightarrow> Inl (Inl e)
               | Inr b \<Rightarrow>
                  if \<not> b then
                    Inl (Inr [(''status'', ''error''),
                              (''message'', ''Repository path does not exist: ''
                                              @ the repository_path)])
                  else Inr rp))
        else (case fs_cwd env of Inl e \<Rightarrow> Inl (Inl e) | Inr d \<Rightarrow> Inr d))
     of
       Inl (Inl e) \<Rightarrow>
         ([(''status'', ''error''), (''message'', ''Unexpected error: '' @ e)], [])
     | Inl (Inr r) \<Rightarrow> (r, [])
     | Inr repo_path \<Rightarrow>
        (case fs_exists env (path_div repo_path ''.git'') of
           Inl e \<Rightarrow>
             ([(''status'', ''error''), (''message'', ''Unexpected error: '' @ e)], [])
         | Inr b \<Rightarrow>
            if \<not> b then
              ([(''status'', ''error''),
                (''message'', ''Not a git repository: '' @ repo_path)], [])
            else
              (let call = ([''git'', ''status'', ''--porcelain''], repo_path, 10)
               in case run call of
                    CompletedProcess returncode out err \<Rightarrow>
                      if returncode = 0 then
                        ([(''status'', ''success''),
                          (''repository_path'', repo_path),
                          (''porcelain_output'', py_strip out),
                          (''message'', ''Git status retrieved successfully'')], [call])
                      else
                        ([(''status'', ''error''),
                          (''message'', ''Git status command failed''),
                          (''stderr'', py_strip err)], [call])
                  | TimeoutExpired \<Rightarrow>
                      ([(''status'', ''error''),
                        (''message'', ''Git status command timed out'')], [call])
                  | OtherException e \<Rightarrow>
                      ([(''status'', ''error''),
                        (''message'', ''Unexpected error: '' @ e)], [call]))))"

section \<open>The returned dictionaries, by kind\<close>

text \<open>
  The specification names the results by kind; the source only has dictionary literals.
  Each kind below is the literal of the source it stands for, so that a property can say
  \<open>PathNotFound p\<close> instead of repeating the text. \<open>error_result\<close> is the two-item
  dictionary shared by every validation error, by the timeouts and by the last
  \<open>except\<close> clause.
\<close>

definition error_result :: "string \<Rightarrow> tool_result" where
  "error_result msg = [(''status'', ''error''), (''message'', msg)]"

definition PathNotFound :: "string \<Rightarrow> tool_result" where
  "PathNotFound p = error_result (''Repository path does not exist: '' @ p)"

definition NotARepository :: "string \<Rightarrow> tool_result" where
  "NotARepository rp = error_result (''Not a git repository: '' @ rp)"

definition UnexpectedError :: "string \<Rightarrow> tool_result" where
  "UnexpectedError e = error_result (''Unexpected error: '' @ e)"

definition MissingTarget :: tool_result where
  "MissingTarget =
     error_result ''Must specify either files, all_files=True, interactive=True, or patch=True''"

definition EmptyMessage :: tool_result where
  "EmptyMessage = error_result ''Commit message cannot be empty''"

definition NoCurrentBranch :: tool_result where
  "NoCurrentBranch = error_result ''Could not determine current branch''"

definition BranchQueryFailed :: "string \<Rightarrow> tool_result" where
  "BranchQueryFailed err =
     [(''status'', ''error''), (''message'', ''Failed to get current branch''), (''stderr'', err)]"

definition CommandFailed :: "string \<Rightarrow> string list \<Rightarrow> string \<Rightarrow> string \<Rightarrow> tool_result" where
  "CommandFailed msg cmd err rp =
     [(''status'', ''error''), (''message'', msg), (''command'', py_join '' '' cmd),
      (''stderr'', err), (''repository_path'', rp)]"

definition StatusFailed :: "string \<Rightarrow> tool_result" where
  "StatusFailed err =
     [(''status'', ''error''), (''message'', ''Git status command failed''), (''stderr'', err)]"

text \<open>
  The four \<open>except subprocess.TimeoutExpired\<close> clauses (lines 101, 192, 306 and 371).
\<close>

definition add_timeout :: tool_result where
  "add_timeout = error_result ''Git add command timed out after 30 seconds''"

definition commit_timeout :: tool_result where
  "commit_timeout = error_result ''Git commit command timed out after 30 seconds''"

definition push_timeout :: tool_result where
  "push_timeout = error_result ''Git push command timed out after 2 minutes''"

definition status_timeout :: tool_result where
  "status_timeout = error_result ''Git status command timed out''"

text \<open>
The dictionaries returned on exit code 0.
\<close>

definition add_success :: "string list \<Rightarrow> string \<Rightarrow> string \<Rightarrow> tool_result" where
  "add_success cmd out rp =
     [(''status'', ''success''),
      (''message'', ''Files successfully added to staging area''),
      (''command'', py_join '' '' cmd),
      (''stdout'', if py_strip out \<noteq> [] then py_strip out else ''No output''),
      (''repository_path'', rp)]"

definition commit_success :: "string list \<Rightarrow> string \<Rightarrow> string \<Rightarrow> tool_result" where
  "commit_success cmd out rp =
     [(''status'', ''success''),
      (''message'', ''Commit created successfully''),
      (''command'', py_join '' '' cmd),
      (''stdout'', py_strip out),
      (''repository_path'', rp)]"

definition push_success ::
  "string \<Rightarrow> string \<Rightarrow> string list \<Rightarrow> string \<Rightarrow> string \<Rightarrow> string \<Rightarrow> tool_result" where
  "push_success remote branch cmd out err rp =
     [(''status'', ''success''),
      (''message'', ''Successfully pushed to '' @ remote @ ''/'' @ branch),
      (''command'', py_join '' '' cmd),
      (''stdout'', py_strip out),
      (''stderr'', py_strip err),
      (''repository_path'', rp)]"

definition status_success :: "string \<Rightarrow> string \<Rightarrow> tool_result" where
  "status_success rp out =
     [(''status'', ''success''),
      (''repository_path'', rp),
      (''porcelain_output'', py_strip out),
      (''message'', ''Git status retrieved successfully'')]"

section \<open>The handlers in stages\<close>

text \<open>
  The same handlers cut into the stages the specification describes: resolving the
  repository (the block that opens all four handlers), composing the argument vector, and
  running it. The lemmas \<open>git_add_staged\<close>, \<open>git_commit_staged\<close>,
  \<open>git_push_staged\<close> and \<open>git_status_staged\<close> below prove that each handler, as
  defined above from the source, is the composition of its stages.
\<close>

definition git_marker :: "string \<Rightarrow> string" where
  "git_marker rp = path_div rp ''.git''"

definition resolution :: "env \<Rightarrow> string option \<Rightarrow> tool_result + string" where
  "resolution env repository_path =
     (case
        (if py_truthy repository_path then
           (case fs_resolve env (the repository_path) of
              Inl e \<Rightarrow> Inl (UnexpectedError e)
            | Inr rp \<Rightarrow>
               (case fs_exists env rp of
                  Inl e \<Rightarrow> Inl (UnexpectedError e)
                | Inr b \<Rightarrow>
                   if \<not> b then Inl (PathNotFound (the repository_path)) else Inr rp))
         else (case fs_cwd env of Inl e \<Rightarrow> Inl (UnexpectedError e) | Inr d \<Rightarrow> Inr d))
      of
        Inl r \<Rightarrow> Inl r
      | Inr repo_path \<Rightarrow>
         (case fs_exists env (git_marker repo_path) of
            Inl e \<Rightarrow> Inl (UnexpectedError e)
          | Inr b \<Rightarrow> if \<not> b then Inl (NotARepository repo_path) else Inr repo_path))"

definition add_cmd :: "string option \<Rightarrow> bool \<Rightarrow> bool \<Rightarrow> bool \<Rightarrow> string list option" where
  "add_cmd files all_files interactive patch =
     (if interactive then Some [''git'', ''add'', ''--interactive'']
      else if patch then Some [''git'', ''add'', ''--patch'']
      else if all_files then Some [''git'', ''add'', ''.'']
      else if py_truthy files then Some ([''git'', ''add''] @ py_split (py_strip (the files)))
      else None)"

definition commit_cmd :: "string \<Rightarrow> bool \<Rightarrow> bool \<Rightarrow> string list" where
  "commit_cmd message all_files amend =
     (let cmd0 = [''git'', ''commit'', ''-m'', message];
          cmd1 = (if all_files then py_insert 2 ''-a'' cmd0 else cmd0)
      in if amend then py_insert 2 ''--amend'' cmd1 else cmd1)"

definition push_cmd :: "string \<Rightarrow> string \<Rightarrow> bool \<Rightarrow> bool \<Rightarrow> string list" where
  "push_cmd remote branch force set_upstream =
     (let cmd0 = [''git'', ''push''];
          cmd1 = (if set_upstream then cmd0 @ [''-u'', remote, branch]
                  else cmd0 @ [remote, branch])
      in if force then py_insert 2 ''--force'' cmd1 else cmd1)"

definition branch_query :: "string \<Rightarrow> invocation" where
  "branch_query rp = ([''git'', ''branch'', ''--show-current''], rp, 10)"

definition status_query :: "string \<Rightarrow> invocation" where
  "status_query rp = ([''git'', ''status'', ''--porcelain''], rp, 10)"

definition add_in_repo ::
  "executor \<Rightarrow> string option \<Rightarrow> bool \<Rightarrow> bool \<Rightarrow> bool \<Rightarrow> string
     \<Rightarrow> tool_result \<times> invocation list" where
  "add_in_repo run files all_files interactive patch rp =
     (case add_cmd files all_files interactive patch of
        None \<Rightarrow> (MissingTarget, [])
      | Some cmd \<Rightarrow>
         (case run (cmd, rp, 30) of
            CompletedProcess returncode out err \<Rightarrow>
              if returncode = 0 then (add_success cmd out rp, [(cmd, rp, 30)])
              else (CommandFailed ''Git add command failed'' cmd (py_strip err) rp,
                    [(cmd, rp, 30)])
          | TimeoutExpired \<Rightarrow> (add_timeout, [(cmd, rp, 30)])
          | OtherException e \<Rightarrow> (UnexpectedError e, [(cmd, rp, 30)])))"

definition commit_in_repo ::
  "executor \<Rightarrow> string \<Rightarrow> bool \<Rightarrow> bool \<Rightarrow> string \<Rightarrow> tool_result \<times> invocation list" where
  "commit_in_repo run message all_files amend rp =
     (case run (commit_cmd message all_files amend, rp, 30) of
        CompletedProcess returncode out err \<Rightarrow>
          if returncode = 0 then
            (commit_success (commit_cmd message all_files amend) out rp,
             [(commit_cmd message all_files amend, rp, 30)])
          else
            (CommandFailed ''Git commit command failed'' (commit_cmd message all_files amend)
               (py_strip err) rp,
             [(commit_cmd message all_files amend, rp, 30)])
      | TimeoutExpired \<Rightarrow> (commit_timeout, [(commit_cmd message all_files amend, rp, 30)])
      | OtherException e \<Rightarrow>
          (UnexpectedError e, [(commit_cmd message all_files amend, rp, 30)]))"

definition push_branch ::
  "executor \<Rightarrow> string option \<Rightarrow> string
     \<Rightarrow> (tool_result \<times> invocation list) + (string \<times> invocation list)" where
  "push_branch run branch rp =
     (case branch of
        Some b \<Rightarrow> Inr (b, [])
      | None \<Rightarrow>
         (case run (branch_query rp) of
            CompletedProcess returncode out err \<Rightarrow>
              if returncode = 0 then
                (if py_strip out = [] then Inl (NoCurrentBranch, [branch_query rp])
                 else Inr (py_strip out, [branch_query rp]))
              else Inl (BranchQueryFailed (py_strip err), [branch_query rp])
          | TimeoutExpired \<Rightarrow> Inl (push_timeout, [branch_query rp])
          | OtherException e \<Rightarrow> Inl (UnexpectedError e, [branch_query rp])))"

definition push_run ::
  "executor \<Rightarrow> string \<Rightarrow> string \<Rightarrow> bool \<Rightarrow> bool \<Rightarrow> string \<Rightarrow> invocation list
     \<Rightarrow> tool_result \<times> invocation list" where
  "push_run run remote b force set_upstream rp spawned =
     (case run (push_cmd remote b force set_upstream, rp, 120) of
        CompletedProcess returncode out err \<Rightarrow>
          if returncode = 0 then
            (push_success remote b (push_cmd remote b force set_upstream) out err rp,
             spawned @ [(push_cmd remote b force set_upstream, rp, 120)])
          else
            (CommandFailed (''Git push to '' @ remote @ ''/'' @ b @ '' failed'')
               (push_cmd remote b force set_upstream) (py_strip err) rp,
             spawned @ [(push_cmd remote b force set_upstream, rp, 120)])
      | TimeoutExpired \<Rightarrow>
          (push_timeout, spawned @ [(push_cmd remote b force set_upstream, rp, 120)])
      | OtherException e \<Rightarrow>
          (UnexpectedError e, spawned @ [(push_cmd remote b force set_upstream, rp, 120)]))"

definition push_in_repo ::
  "executor \<Rightarrow> string \<Rightarrow> string option \<Rightarrow> bool \<Rightarrow> bool \<Rightarrow> string
     \<Rightarrow> tool_result \<times> invocation list" where
  "push_in_repo run remote branch force set_upstream rp =
     (case push_branch run branch rp of
        Inl early \<Rightarrow> early
      | Inr (b, spawned) \<Rightarrow> push_run run remote b force set_upstream rp spawned)"

definition status_in_repo :: "executor \<Rightarrow> string \<Rightarrow> tool_result \<times> invocation list" where
  "status_in_repo run rp =
     (case run (status_query rp) of
        CompletedProcess returncode out err \<Rightarrow>
          if returncode = 0 then (status_success rp out, [status_query rp])
          else (StatusFailed (py_strip err), [status_query rp])
      | TimeoutExpired \<Rightarrow> (status_timeout, [status_query rp])
      | OtherException e \<Rightarrow> (UnexpectedError e, [status_query rp]))"

section \<open>Vocabulary of the properties\<close>

text \<open>
  \<open>resolves env repository_path rp\<close>: the opening block of a handler (lines 39 to 54 of
  \<open>git_add\<close>, repeated in the three others) gets through with \<open>repo_path = rp\<close>. Either
  a non-empty path was given, resolves to \<open>rp\<close> and exists, or the current directory is
  \<open>rp\<close>; and \<open>rp\<close> holds the \<open>.git\<close> marker.
\<close>

definition resolves :: "env \<Rightarrow> string option \<Rightarrow> string \<Rightarrow> bool" where
  "resolves env repository_path rp =
     ((if py_truthy repository_path
       then fs_resolve env (the repository_path) = Inr rp \<and> fs_exists env rp = Inr True
       else fs_cwd env = Inr rp)
      \<and> fs_exists env (path_div rp ''.git'') = Inr True)"

text \<open>
  A small file system for the worked instances: the server runs in the work tree
  \<open>/home/u/proj\<close>, relative paths resolve under \<open>/home/u\<close>, \<open>/home/u/docs\<close> is a
  directory without version control and nothing else exists.
\<close>

definition example_env :: env where
  "example_env =
     \<lparr>fs_cwd = Inr ''/home/u/proj'',
      fs_resolve = (\<lambda>p. Inr (''/home/u/'' @ p)),
      fs_exists = (\<lambda>p. Inr (p \<in> set [''/home/u/proj'', ''/home/u/proj/.git'',
                                          ''/home/u/docs'']))\<rparr>"

section \<open>Facts about the string operations\<close>

lemma py_rstrip_decomp: "s = py_rstrip s @ rev (takeWhile py_isspace (rev s))"
proof -
  have "rev (takeWhile py_isspace (rev s) @ dropWhile py_isspace (rev s)) = rev (rev s)"
    by (simp only: takeWhile_dropWhile_id)
  then show ?thesis by (simp only: py_rstrip_def rev_append rev_rev_ident)
qed

lemma py_strip_decomp:
  "s = takeWhile py_isspace s @ py_strip s
        @ rev (takeWhile py_isspace (rev (py_lstrip s)))"
proof -
  have "s = takeWhile py_isspace s @ py_lstrip s" by (simp add: py_lstrip_def)
  also have "py_lstrip s = py_strip s @ rev (takeWhile py_isspace (rev (py_lstrip s)))"
    unfolding py_strip_def by (rule py_rstrip_decomp)
  finally show ?thesis .
qed

lemma py_strip_hd: "py_strip s \<noteq> [] \<Longrightarrow> \<not> py_isspace (hd (py_strip s))"
proof -
  assume ne: "py_strip s \<noteq> []"
  let ?t = "py_lstrip s"
  have tn: "?t \<noteq> []" using ne by (auto simp: py_strip_def py_rstrip_def)
  have h: "\<not> py_isspace (hd ?t)" using tn unfolding py_lstrip_def by (rule hd_dropWhile)
  have "?t = py_strip s @ rev (takeWhile py_isspace (rev ?t))"
    unfolding py_strip_def by (rule py_rstrip_decomp)
  then have "hd ?t = hd (py_strip s @ rev (takeWhile py_isspace (rev ?t)))" by simp
  then have "hd ?t = hd (py_strip s)" using ne by simp
  with h show ?thesis by simp
qed

lemma py_strip_last: "py_strip s \<noteq> [] \<Longrightarrow> \<not> py_isspace (last (py_strip s))"
proof -
  assume ne: "py_strip s \<noteq> []"
  let ?r = "dropWhile py_isspace (rev (py_lstrip s))"
  have eq: "py_strip s = rev ?r" by (simp add: py_strip_def py_rstrip_def)
  with ne have rn: "?r \<noteq> []" by simp
  then have "\<not> py_isspace (hd ?r)" by (rule hd_dropWhile)
  moreover have "last (py_strip s) = hd ?r" using rn eq by (simp add: last_rev)
  ultimately show ?thesis by simp
qed

lemma py_strip_surroundings:
  "\<exists>pre suf. s = pre @ py_strip s @ suf
      \<and> (\<forall>c \<in> set pre. py_isspace c) \<and> (\<forall>c \<in> set suf. py_isspace c)"
proof (intro exI conjI)
  show "s = takeWhile py_isspace s @ py_strip s
              @ rev (takeWhile py_isspace (rev (py_lstrip s)))"
    by (rule py_strip_decomp)
  show "\<forall>c \<in> set (takeWhile py_isspace s). py_isspace c"
    by (auto dest: set_takeWhileD)
  show "\<forall>c \<in> set (rev (takeWhile py_isspace (rev (py_lstrip s)))). py_isspace c"
    by (auto dest: set_takeWhileD)
qed

lemma filter_takeWhile_space: "filter (\<lambda>c. \<not> P c) (takeWhile P xs) = []"
  by (induction xs) auto

lemma filter_py_strip:
  "filter (\<lambda>c. \<not> py_isspace c) (py_strip s) = filter (\<lambda>c. \<not> py_isspace c) s"
proof -
  let ?f = "filter (\<lambda>c. \<not> py_isspace c)"
  have "?f s = ?f (takeWhile py_isspace s @ py_strip s
                    @ rev (takeWhile py_isspace (rev (py_lstrip s))))"
    using py_strip_decomp [of s] by simp
  also have "\<dots> = ?f (py_strip s)"
    by (simp add: filter_takeWhile_space flip: rev_filter)
  finally show ?thesis by simp
qed

lemma split_from_concat:
  "concat (split_from s cur) = rev cur @ filter (\<lambda>c. \<not> py_isspace c) s"
  by (induction s arbitrary: cur) auto

lemma split_from_tokens:
  "(\<forall>c \<in> set cur. \<not> py_isspace c)
     \<Longrightarrow> \<forall>t \<in> set (split_from s cur). t \<noteq> [] \<and> (\<forall>c \<in> set t. \<not> py_isspace c)"
proof (induction s arbitrary: cur)
  case Nil
  then show ?case by simp
next
  case (Cons a s)
  have empty: "\<forall>t \<in> set (split_from s []). t \<noteq> [] \<and> (\<forall>c \<in> set t. \<not> py_isspace c)"
    by (rule Cons.IH) simp
  show ?case
  proof (cases "py_isspace a")
    case True
    with empty Cons.prems show ?thesis by simp
  next
    case False
    with Cons.prems have "\<forall>c \<in> set (a # cur). \<not> py_isspace c" by simp
    then have "\<forall>t \<in> set (split_from s (a # cur)). t \<noteq> [] \<and> (\<forall>c \<in> set t. \<not> py_isspace c)"
      by (rule Cons.IH)
    with False show ?thesis by simp
  qed
qed

lemma py_split_concat: "concat (py_split s) = filter (\<lambda>c. \<not> py_isspace c) s"
  by (simp add: py_split_def split_from_concat)

lemma py_split_tokens:
  "\<forall>t \<in> set (py_split s). t \<noteq> [] \<and> (\<forall>c \<in> set t. \<not> py_isspace c)"
  unfolding py_split_def by (rule split_from_tokens) simp

section \<open>Each handler is the composition of its stages\<close>

text \<open>
  The first lemma of each pair only folds the dictionary literals into their names; the
  second merges the two failure paths of the opening block into \<open>resolution\<close>.
\<close>

lemma git_add_compact:
  "git_add env run files all_files interactive patch repository_path =
    (case
       (if py_truthy repository_path then
          (case fs_resolve env (the repository_path) of
             Inl e \<Rightarrow> Inl (Inl e)
           | Inr rp \<Rightarrow>
              (case fs_exists env rp of
                 Inl e \<Rightarrow> Inl (Inl e)
               | Inr b \<Rightarrow>
                  if \<not> b then Inl (Inr (PathNotFound (the repository_path))) else Inr rp))
        else (case fs_cwd env of Inl e \<Rightarrow> Inl (Inl e) | Inr d \<Rightarrow> Inr d))
     of
       Inl (Inl e) \<Rightarrow> (UnexpectedError e, [])
     | Inl (Inr r) \<Rightarrow> (r, [])
     | Inr repo_path \<Rightarrow>
        (case fs_exists env (git_marker repo_path) of
           Inl e \<Rightarrow> (UnexpectedError e, [])
         | Inr b \<Rightarrow>
            if \<not> b then (NotARepository repo_path, []) else add_in_repo run files all_files interactive patch repo_path))"
  unfolding git_add_def add_in_repo_def add_cmd_def add_success_def CommandFailed_def add_timeout_def MissingTarget_def
    git_marker_def UnexpectedError_def NotARepository_def PathNotFound_def error_result_def Let_def
  by (rule refl)

lemma git_add_staged:
  "git_add env run files all_files interactive patch repository_path =
     (case resolution env repository_path of
        Inl r \<Rightarrow> (r, [])
      | Inr rp \<Rightarrow> add_in_repo run files all_files interactive patch rp)"
  unfolding git_add_compact resolution_def
  by (simp split: sum.splits)

lemma git_commit_compact:
  "git_commit env run message all_files amend repository_path =
    (if py_strip message = [] then (EmptyMessage, []) else
    (case
       (if py_truthy repository_path then
          (case fs_resolve env (the repository_path) of
             Inl e \<Rightarrow> Inl (Inl e)
           | Inr rp \<Rightarrow>
              (case fs_exists env rp of
                 Inl e \<Rightarrow> Inl (Inl e)
               | Inr b \<Rightarrow>
                  if \<not> b then Inl (Inr (PathNotFound (the repository_path))) else Inr rp))
        else (case fs_cwd env of Inl e \<Rightarrow> Inl (Inl e) | Inr d \<Rightarrow> Inr d))
     of
       Inl (Inl e) \<Rightarrow> (UnexpectedError e, [])
     | Inl (Inr r) \<Rightarrow> (r, [])
     | Inr repo_path \<Rightarrow>
        (case fs_exists env (git_marker repo_path) of
           Inl e \<Rightarrow> (UnexpectedError e, [])
         | Inr b \<Rightarrow>
            if \<not> b then (NotARepository repo_path, []) else commit_in_repo run message all_files amend repo_path)))"
  unfolding git_commit_def commit_in_repo_def commit_cmd_def commit_success_def CommandFailed_def commit_timeout_def EmptyMessage_def
    git_marker_def UnexpectedError_def NotARepository_def PathNotFound_def error_result_def Let_def
  by (rule refl)

lemma git_commit_staged:
  "git_commit env run message all_files amend repository_path =
     (if py_strip message = [] then (EmptyMessage, []) else
    (case resolution env repository_path of
        Inl r \<Rightarrow> (r, [])
      | Inr rp \<Rightarrow> commit_in_repo run message all_files amend rp))"
  unfolding git_commit_compact resolution_def
  by (simp split: sum.splits)

lemma git_push_compact:
  "git_push env run remote branch force set_upstream repository_path =
    (case
       (if py_truthy repository_path then
          (case fs_resolve env (the repository_path) of
             Inl e \<Rightarrow> Inl (Inl e)
           | Inr rp \<Rightarrow>
              (case fs_exists env rp of
                 Inl e \<Rightarrow> Inl (Inl e)
               | Inr b \<Rightarrow>
                  if \<not> b then Inl (Inr (PathNotFound (the repository_path))) else Inr rp))
        else (case fs_cwd env of Inl e \<Rightarrow> Inl (Inl e) | Inr d \<Rightarrow> Inr d))
     of
       Inl (Inl e) \<Rightarrow> (UnexpectedError e, [])
     | Inl (Inr r) \<Rightarrow> (r, [])
     | Inr repo_path \<Rightarrow>
        (case fs_exists env (git_marker repo_path) of
           Inl e \<Rightarrow> (UnexpectedError e, [])
         | Inr b \<Rightarrow>
            if \<not> b then (NotARepository repo_path, []) else push_in_repo run remote branch force set_upstream repo_path))"
  unfolding git_push_def push_in_repo_def push_branch_def push_run_def push_cmd_def branch_query_def push_success_def CommandFailed_def push_timeout_def NoCurrentBranch_def BranchQueryFailed_def
    git_marker_def UnexpectedError_def NotARepository_def PathNotFound_def error_result_def Let_def
  by (rule refl)

lemma git_push_staged:
  "git_push env run remote branch force set_upstream repository_path =
     (case resolution env repository_path of
        Inl r \<Rightarrow> (r, [])
      | Inr rp \<Rightarrow> push_in_repo run remote branch force set_upstream rp)"
  unfolding git_push_compact resolution_def
  by (simp split: sum.splits)

lemma git_status_compact:
  "git_status env run repository_path =
    (case
       (if py_truthy repository_path then
          (case fs_resolve env (the repository_path) of
             Inl e \<Rightarrow> Inl (Inl e)
           | Inr rp \<Rightarrow>
              (case fs_exists env rp of
                 Inl e \<Rightarrow> Inl (Inl e)
               | Inr b \<Rightarrow>
                  if \<not> b then Inl (Inr (PathNotFound (the repository_path))) else Inr rp))
        else (case fs_cwd env of Inl e \<Rightarrow> Inl (Inl e) | Inr d \<Rightarrow> Inr d))
     of
       Inl (Inl e) \<Rightarrow> (UnexpectedError e, [])
     | Inl (Inr r) \<Rightarrow> (r, [])
     | Inr repo_path \<Rightarrow>
        (case fs_exists env (git_marker repo_path) of
           Inl e \<Rightarrow> (UnexpectedError e, [])
         | Inr b \<Rightarrow>
            if \<not> b then (NotARepository repo_path, []) else status_in_repo run repo_path))"
  unfolding git_status_def status_in_repo_def status_query_def status_success_def StatusFailed_def status_timeout_def
    git_marker_def UnexpectedError_def NotARepository_def PathNotFound_def error_result_def Let_def
  by (rule refl)

lemma git_status_staged:
  "git_status env run repository_path =
     (case resolution env repository_path of
        Inl r \<Rightarrow> (r, [])
      | Inr rp \<Rightarrow> status_in_repo run rp)"
  unfolding git_status_compact resolution_def
  by (simp split: sum.splits)

section \<open>Facts about the stages\<close>

lemma resolution_Inr_iff: "resolution env p = Inr rp \<longleftrightarrow> resolves env p rp"
  by (auto simp: resolution_def resolves_def git_marker_def split: sum.splits if_splits)

lemma resolution_PathNotFound:
  assumes "p \<noteq> []" "fs_resolve env p = Inr rp" "fs_exists env rp = Inr False"
  shows "resolution env (Some p) = Inl (PathNotFound p)"
  using assms by (simp add: resolution_def py_truthy_def)

lemma resolution_NotARepository:
  assumes "p \<noteq> []" "fs_resolve env p = Inr rp" "fs_exists env rp = Inr True"
    "fs_exists env (path_div rp ''.git'') = Inr False"
  shows "resolution env (Some p) = Inl (NotARepository rp)"
  using assms by (simp add: resolution_def py_truthy_def git_marker_def)

lemma resolution_empty: "resolution env (Some []) = resolution env None"
  by (simp add: resolution_def py_truthy_def)

lemma add_in_repo_length: "length (snd (add_in_repo run files a i pt rp)) \<le> Suc 0"
  by (simp add: add_in_repo_def split: option.splits proc_result.splits)

lemma commit_in_repo_length: "length (snd (commit_in_repo run message a am rp)) \<le> Suc 0"
  by (simp add: commit_in_repo_def split: proc_result.splits)

lemma status_in_repo_length: "length (snd (status_in_repo run rp)) \<le> Suc 0"
  by (simp add: status_in_repo_def split: proc_result.splits)

lemma add_in_repo_trace:
  "snd (add_in_repo run files a i pt rp) =
     (case add_cmd files a i pt of None \<Rightarrow> [] | Some cmd \<Rightarrow> [(cmd, rp, 30)])"
  by (simp add: add_in_repo_def split: option.splits proc_result.splits)

lemma commit_in_repo_trace:
  "snd (commit_in_repo run message a am rp) = [(commit_cmd message a am, rp, 30)]"
  by (simp add: commit_in_repo_def split: proc_result.splits)

lemma status_in_repo_trace: "snd (status_in_repo run rp) = [status_query rp]"
  by (simp add: status_in_repo_def split: proc_result.splits)

lemma push_run_trace:
  "snd (push_run run remote b f su rp spawned) = spawned @ [(push_cmd remote b f su, rp, 120)]"
  by (simp add: push_run_def split: proc_result.splits)

lemma push_in_repo_Some_trace:
  "snd (push_in_repo run remote (Some b) f su rp) = [(push_cmd remote b f su, rp, 120)]"
  by (simp add: push_in_repo_def push_branch_def push_run_trace)

lemma push_in_repo_None_trace:
  "snd (push_in_repo run remote None f su rp) = [branch_query rp]
   \<or> (\<exists>br. snd (push_in_repo run remote None f su rp) =
              [branch_query rp, (push_cmd remote br f su, rp, 120)])"
  by (auto simp: push_in_repo_def push_branch_def push_run_trace split: proc_result.splits)

lemma push_in_repo_discovered:
  assumes "run (branch_query rp) = CompletedProcess 0 out err" "py_strip out \<noteq> []"
  shows "snd (push_in_repo run remote None f su rp) =
           [branch_query rp, (push_cmd remote (py_strip out) f su, rp, 120)]"
  using assms by (simp add: push_in_repo_def push_branch_def push_run_trace)

lemma push_in_repo_no_branch:
  assumes "run (branch_query rp) = CompletedProcess 0 out err" "py_strip out = []"
  shows "push_in_repo run remote None f su rp = (NoCurrentBranch, [branch_query rp])"
  using assms by (simp add: push_in_repo_def push_branch_def)

lemma push_in_repo_query_failed:
  assumes "run (branch_query rp) = CompletedProcess rc out err" "rc \<noteq> 0"
  shows "push_in_repo run remote None f su rp =
           (BranchQueryFailed (py_strip err), [branch_query rp])"
  using assms by (simp add: push_in_repo_def push_branch_def)

lemma push_cmd_cases:
  "push_cmd remote b True True = [''git'', ''push'', ''--force'', ''-u'', remote, b]"
  "push_cmd remote b True False = [''git'', ''push'', ''--force'', remote, b]"
  "push_cmd remote b False False = [''git'', ''push'', remote, b]"
  "push_cmd remote b False True = [''git'', ''push'', ''-u'', remote, b]"
  by (simp_all add: push_cmd_def py_insert_def)

lemma push_cmd_head: "take 2 (push_cmd remote b f su) = [''git'', ''push'']"
  by (cases f; cases su) (simp_all add: push_cmd_cases)

lemma commit_cmd_cases:
  "commit_cmd message True True = [''git'', ''commit'', ''--amend'', ''-a'', ''-m'', message]"
  "commit_cmd message True False = [''git'', ''commit'', ''-a'', ''-m'', message]"
  "commit_cmd message False True = [''git'', ''commit'', ''--amend'', ''-m'', message]"
  "commit_cmd message False False = [''git'', ''commit'', ''-m'', message]"
  by (simp_all add: commit_cmd_def py_insert_def)

lemma PathNotFound_distinct:
  "UnexpectedError e \<noteq> PathNotFound q" "NotARepository rp \<noteq> PathNotFound q"
  "MissingTarget \<noteq> PathNotFound q" "EmptyMessage \<noteq> PathNotFound q"
  "NoCurrentBranch \<noteq> PathNotFound q" "BranchQueryFailed err \<noteq> PathNotFound q"
  "CommandFailed msg cmd err rp \<noteq> PathNotFound q" "StatusFailed err \<noteq> PathNotFound q"
  "add_timeout \<noteq> PathNotFound q" "commit_timeout \<noteq> PathNotFound q"
  "push_timeout \<noteq> PathNotFound q" "status_timeout \<noteq> PathNotFound q"
  "add_success cmd out rp \<noteq> PathNotFound q" "commit_success cmd out rp \<noteq> PathNotFound q"
  "push_success remote b cmd out err rp \<noteq> PathNotFound q"
  "status_success rp out \<noteq> PathNotFound q"
  by (simp_all add: UnexpectedError_def NotARepository_def MissingTarget_def EmptyMessage_def
        NoCurrentBranch_def BranchQueryFailed_def CommandFailed_def StatusFailed_def
        add_timeout_def commit_timeout_def push_timeout_def status_timeout_def add_success_def
        commit_success_def push_success_def status_success_def PathNotFound_def
        error_result_def)

lemma resolution_cwd_not_PathNotFound: "resolution env None \<noteq> Inl (PathNotFound q)"
  by (simp add: resolution_def py_truthy_def PathNotFound_distinct split: sum.splits)

lemma in_repo_not_PathNotFound:
  "fst (add_in_repo run files a i pt rp) \<noteq> PathNotFound q"
  "fst (commit_in_repo run message a am rp) \<noteq> PathNotFound q"
  "fst (push_in_repo run remote branch f su rp) \<noteq> PathNotFound q"
  "fst (status_in_repo run rp) \<noteq> PathNotFound q"
  by (simp_all add: add_in_repo_def commit_in_repo_def push_in_repo_def push_branch_def
        push_run_def status_in_repo_def PathNotFound_distinct
      split: option.splits proc_result.splits)

text \<open>
  What each handler returns when the process it waits for times out, once the repository
  has resolved.
\<close>

lemma handler_timeouts:
  assumes "resolves env repository_path rp"
  shows "add_cmd files all_files interactive patch = Some cmd
           \<Longrightarrow> run (cmd, rp, 30) = TimeoutExpired
           \<Longrightarrow> git_add env run files all_files interactive patch repository_path =
                 (add_timeout, [(cmd, rp, 30)])"
    and "py_strip message \<noteq> []
           \<Longrightarrow> run (commit_cmd message all_files amend, rp, 30) = TimeoutExpired
           \<Longrightarrow> git_commit env run message all_files amend repository_path =
                 (commit_timeout, [(commit_cmd message all_files amend, rp, 30)])"
    and "run (push_cmd remote b force set_upstream, rp, 120) = TimeoutExpired
           \<Longrightarrow> git_push env run remote (Some b) force set_upstream repository_path =
                 (push_timeout, [(push_cmd remote b force set_upstream, rp, 120)])"
    and "run (branch_query rp) = TimeoutExpired
           \<Longrightarrow> git_push env run remote None force set_upstream repository_path =
                 (push_timeout, [branch_query rp])"
    and "run (status_query rp) = TimeoutExpired
           \<Longrightarrow> git_status env run repository_path = (status_timeout, [status_query rp])"
  using assms
  by (simp_all add: git_add_staged git_commit_staged git_push_staged git_status_staged
        add_in_repo_def commit_in_repo_def push_in_repo_def push_branch_def push_run_def
        status_in_repo_def flip: resolution_Inr_iff)

section \<open>Properties\<close>

text \<open>
  C1 (as amended). When the repository resolves, \<open>interactive\<close>, \<open>patch\<close> and
  \<open>all_files\<close> are all false and \<open>files\<close> is absent or the empty string, \<open>git_add\<close>
  returns the \<open>MissingTarget\<close> error and spawns no process.
\<close>

theorem git_add_missing_target:
  assumes "resolves env repository_path rp" and "files = None \<or> files = Some []"
  shows "git_add env run files False False False repository_path = (MissingTarget, [])"
proof -
  from assms(1) have "resolution env repository_path = Inr rp"
    by (simp add: resolution_Inr_iff)
  moreover from assms(2) have "add_cmd files False False False = None"
    by (auto simp: add_cmd_def py_truthy_def)
  ultimately show ?thesis by (simp add: git_add_staged add_in_repo_def)
qed

text \<open>
  An instance in the work tree \<open>/home/u/proj\<close>, once with \<open>files\<close> absent and once
  with the empty string.
\<close>

theorem git_add_missing_target_witness:
  "resolves example_env (Some ''proj'') ''/home/u/proj'' \<and>
   git_add example_env (\<lambda>c. CompletedProcess 0 [] []) None False False False (Some ''proj'') =
     ([(''status'', ''error''),
       (''message'', ''Must specify either files, all_files=True, interactive=True, or patch=True'')],
      []) \<and>
   git_add example_env (\<lambda>c. CompletedProcess 0 [] []) (Some []) False False False (Some ''proj'') =
     ([(''status'', ''error''),
       (''message'', ''Must specify either files, all_files=True, interactive=True, or patch=True'')],
      [])"
proof -
  have r: "resolves example_env (Some ''proj'') ''/home/u/proj''"
    by (simp add: resolves_def example_env_def py_truthy_def path_div_def)
  from git_add_missing_target [OF r, of None "\<lambda>c. CompletedProcess 0 [] []"]
       git_add_missing_target [OF r, of "Some []" "\<lambda>c. CompletedProcess 0 [] []"]
       r
  show ?thesis by (simp add: MissingTarget_def error_result_def)
qed

text \<open>
  C1 as stated does not hold. A \<open>files\<close> string of two blanks yields no token, but it
  is a true value for \<open>elif files:\<close> (line 65), so \<open>git add\<close> runs without a path and
  its exit code 0 is reported as a success. And with a repository path that does not
  exist the call ends in \<open>PathNotFound\<close> (line 41) before the selectors are looked at.
\<close>

theorem git_add_blank_files_not_missing_target:
  "py_split (py_strip ''  '') = [] \<and>
   git_add example_env (\<lambda>c. CompletedProcess 0 [] []) (Some ''  '') False False False None =
     ([(''status'', ''success''),
       (''message'', ''Files successfully added to staging area''),
       (''command'', ''git add''),
       (''stdout'', ''No output''),
       (''repository_path'', ''/home/u/proj'')],
      [([''git'', ''add''], ''/home/u/proj'', 30)]) \<and>
   git_add example_env (\<lambda>c. CompletedProcess 0 [] []) None False False False (Some ''missing'') =
     ([(''status'', ''error''), (''message'', ''Repository path does not exist: missing'')], []) \<and>
   [(''status'', ''error''), (''message'', ''Repository path does not exist: missing'')] \<noteq>
     MissingTarget"
  by (simp add: git_add_def example_env_def py_truthy_def path_div_def py_split_def
        py_strip_def py_lstrip_def py_rstrip_def py_isspace_def MissingTarget_def
        error_result_def)

text \<open>
  C2. Two timeouts whose message does not name the duration that expired. The status
  query is run with \<open>timeout=10\<close> and its message has no duration at all. The branch
  lookup of \<open>git_push\<close> is run with \<open>timeout=10\<close> as well, but its
  \<open>TimeoutExpired\<close> is caught by the clause written for the push itself, which says
  \<open>2 minutes\<close>. (\<open>handler_timeouts\<close> above has the general statement, with the
  three cases in which message and duration agree.)
\<close>

theorem timeout_messages_misreport_duration:
  "git_status example_env (\<lambda>c. TimeoutExpired) None =
     ([(''status'', ''error''), (''message'', ''Git status command timed out'')],
      [([''git'', ''status'', ''--porcelain''], ''/home/u/proj'', 10)]) \<and>
   git_push example_env (\<lambda>c. TimeoutExpired) ''origin'' None False False None =
     ([(''status'', ''error''), (''message'', ''Git push command timed out after 2 minutes'')],
      [([''git'', ''branch'', ''--show-current''], ''/home/u/proj'', 10)])"
  by (simp add: git_status_def git_push_def example_env_def py_truthy_def path_div_def)

text \<open>
  C3 (as amended). Let a non-empty repository path \<open>p\<close> resolve to \<open>rp\<close>. If \<open>rp\<close>
  does not exist, \<open>git_add\<close>, \<open>git_push\<close> and \<open>git_status\<close>, and \<open>git_commit\<close>
  when its message is not blank, all return the same \<open>PathNotFound\<close> dictionary, whose
  message ends in the path \<open>p\<close> as it was given. If \<open>rp\<close> exists and has no \<open>.git\<close>
  entry they all return the same \<open>NotARepository\<close> dictionary, whose message ends in the
  resolved path \<open>rp\<close>. In both cases no process is spawned.
\<close>

theorem repository_errors_uniform:
  assumes "p \<noteq> []" and "fs_resolve env p = Inr rp"
  shows "(fs_exists env rp = Inr False \<longrightarrow>
            git_add env run files all_files interactive patch (Some p) = (PathNotFound p, [])
          \<and> (py_strip message \<noteq> [] \<longrightarrow>
               git_commit env run message all_files amend (Some p) = (PathNotFound p, []))
          \<and> git_push env run remote branch force set_upstream (Some p) = (PathNotFound p, [])
          \<and> git_status env run (Some p) = (PathNotFound p, []))
       \<and> (fs_exists env rp = Inr True \<and> fs_exists env (path_div rp ''.git'') = Inr False \<longrightarrow>
            git_add env run files all_files interactive patch (Some p) = (NotARepository rp, [])
          \<and> (py_strip message \<noteq> [] \<longrightarrow>
               git_commit env run message all_files amend (Some p) = (NotARepository rp, []))
          \<and> git_push env run remote branch force set_upstream (Some p) = (NotARepository rp, [])
          \<and> git_status env run (Some p) = (NotARepository rp, []))
       \<and> PathNotFound p =
            [(''status'', ''error''), (''message'', ''Repository path does not exist: '' @ p)]
       \<and> NotARepository rp =
            [(''status'', ''error''), (''message'', ''Not a git repository: '' @ rp)]"
proof (intro conjI impI)
  assume "fs_exists env rp = Inr False"
  with assms have r: "resolution env (Some p) = Inl (PathNotFound p)"
    by (rule resolution_PathNotFound)
  show "git_add env run files all_files interactive patch (Some p) = (PathNotFound p, [])"
    using r by (simp add: git_add_staged)
  show "git_push env run remote branch force set_upstream (Some p) = (PathNotFound p, [])"
    using r by (simp add: git_push_staged)
  show "git_status env run (Some p) = (PathNotFound p, [])"
    using r by (simp add: git_status_staged)
  show "git_commit env run message all_files amend (Some p) = (PathNotFound p, [])"
    if "py_strip message \<noteq> []"
    using r that by (simp add: git_commit_staged)
next
  assume "fs_exists env rp = Inr True \<and> fs_exists env (path_div rp ''.git'') = Inr False"
  with assms have r: "resolution env (Some p) = Inl (NotARepository rp)"
    by (simp add: resolution_NotARepository)
  show "git_add env run files all_files interactive patch (Some p) = (NotARepository rp, [])"
    using r by (simp add: git_add_staged)
  show "git_push env run remote branch force set_upstream (Some p) = (NotARepository rp, [])"
    using r by (simp add: git_push_staged)
  show "git_status env run (Some p) = (NotARepository rp, [])"
    using r by (simp add: git_status_staged)
  show "git_commit env run message all_files amend (Some p) = (NotARepository rp, [])"
    if "py_strip message \<noteq> []"
    using r that by (simp add: git_commit_staged)
next
  show "PathNotFound p =
          [(''status'', ''error''), (''message'', ''Repository path does not exist: '' @ p)]"
    by (simp add: PathNotFound_def error_result_def)
  show "NotARepository rp =
          [(''status'', ''error''), (''message'', ''Not a git repository: '' @ rp)]"
    by (simp add: NotARepository_def error_result_def)
qed

text \<open>
  An instance: the relative path \<open>missing\<close> is reported as given, the directory
  \<open>docs\<close> by its resolved path \<open>/home/u/docs\<close>.
\<close>

theorem repository_errors_uniform_witness:
  "fs_resolve example_env ''missing'' = Inr ''/home/u/missing'' \<and>
   fs_exists example_env ''/home/u/missing'' = Inr False \<and>
   git_add example_env (\<lambda>c. TimeoutExpired) None True False False (Some ''missing'') =
     ([(''status'', ''error''), (''message'', ''Repository path does not exist: missing'')], []) \<and>
   git_status example_env (\<lambda>c. TimeoutExpired) (Some ''missing'') =
     ([(''status'', ''error''), (''message'', ''Repository path does not exist: missing'')], []) \<and>
   fs_resolve example_env ''docs'' = Inr ''/home/u/docs'' \<and>
   fs_exists example_env ''/home/u/docs'' = Inr True \<and>
   fs_exists example_env (path_div ''/home/u/docs'' ''.git'') = Inr False \<and>
   git_commit example_env (\<lambda>c. TimeoutExpired) ''msg'' False False (Some ''docs'') =
     ([(''status'', ''error''), (''message'', ''Not a git repository: /home/u/docs'')], []) \<and>
   git_push example_env (\<lambda>c. TimeoutExpired) ''origin'' None False False (Some ''docs'') =
     ([(''status'', ''error''), (''message'', ''Not a git repository: /home/u/docs'')], [])"
proof -
  have a: "''missing'' \<noteq> []" "fs_resolve example_env ''missing'' = Inr ''/home/u/missing''"
    "fs_exists example_env ''/home/u/missing'' = Inr False"
    by (simp_all add: example_env_def)
  have b: "''docs'' \<noteq> []" "fs_resolve example_env ''docs'' = Inr ''/home/u/docs''"
    "fs_exists example_env ''/home/u/docs'' = Inr True"
    "fs_exists example_env (path_div ''/home/u/docs'' ''.git'') = Inr False"
    by (simp_all add: example_env_def path_div_def)
  have m: "py_strip ''msg'' \<noteq> []"
    by (simp add: py_strip_def py_lstrip_def py_rstrip_def py_isspace_def)
  from repository_errors_uniform
         [OF a(1) a(2), where run = "\<lambda>c. TimeoutExpired" and files = None and all_files = True
            and interactive = False and patch = False]
       repository_errors_uniform
         [OF b(1) b(2), where run = "\<lambda>c. TimeoutExpired" and message = "''msg''"
            and all_files = False and amend = False and remote = "''origin''" and branch = None
            and force = False and set_upstream = False]
       a b m
  show ?thesis by simp
qed

text \<open>
  C3 as stated does not hold for \<open>git_commit\<close>: the message is tested first (line
  133), so a blank message with a repository path that does not exist yields
  \<open>EmptyMessage\<close>, not \<open>PathNotFound\<close>.
\<close>

theorem git_commit_blank_message_precedes_path_check:
  "fs_resolve example_env ''missing'' = Inr ''/home/u/missing'' \<and>
   fs_exists example_env ''/home/u/missing'' = Inr False \<and>
   git_commit example_env (\<lambda>c. TimeoutExpired) '' '' False False (Some ''missing'') =
     ([(''status'', ''error''), (''message'', ''Commit message cannot be empty'')], []) \<and>
   [(''status'', ''error''), (''message'', ''Commit message cannot be empty'')] \<noteq>
     PathNotFound ''missing''"
  by (simp add: example_env_def git_commit_staged EmptyMessage_def PathNotFound_def
        error_result_def py_strip_def py_lstrip_def py_rstrip_def py_isspace_def)

text \<open>
  C4. \<open>git_add\<close>, \<open>git_commit\<close>, \<open>git_status\<close>, and \<open>git_push\<close> with a branch,
  spawn at most one process per call. \<open>git_push\<close> without a branch spawns nothing when
  the repository does not resolve; otherwise it spawns the branch lookup
  (\<open>git branch --show-current\<close>, 10 seconds) first and at most one more process after
  it, which is a \<open>git push\<close> with a 120 second timeout. If the lookup exits with code 0
  and a blank name, the result is \<open>NoCurrentBranch\<close> and the lookup is the only
  process; if it exits with another code, the result is \<open>BranchQueryFailed\<close> with the
  trimmed stderr of the lookup, and again the lookup is the only process.
\<close>

theorem process_invocations_bounded:
  "length (snd (git_add env run files all_files interactive patch repository_path)) \<le> 1
   \<and> length (snd (git_commit env run message all_files amend repository_path)) \<le> 1
   \<and> length (snd (git_status env run repository_path)) \<le> 1
   \<and> length (snd (git_push env run remote (Some b) force set_upstream repository_path)) \<le> 1
   \<and> (snd (git_push env run remote None force set_upstream repository_path) = []
       \<or> (\<exists>rp. resolves env repository_path rp
             \<and> (snd (git_push env run remote None force set_upstream repository_path)
                   = [branch_query rp]
                \<or> (\<exists>br. snd (git_push env run remote None force set_upstream repository_path)
                           = [branch_query rp, (push_cmd remote br force set_upstream, rp, 120)]
                        \<and> take 2 (push_cmd remote br force set_upstream) = [''git'', ''push'']))))
   \<and> (\<forall>rp. resolves env repository_path rp \<longrightarrow>
         snd (git_push env run remote None force set_upstream repository_path) \<noteq> [])
   \<and> (\<forall>rp out err. resolves env repository_path rp
         \<and> run (branch_query rp) = CompletedProcess 0 out err \<and> py_strip out = [] \<longrightarrow>
         git_push env run remote None force set_upstream repository_path =
           (NoCurrentBranch, [branch_query rp]))
   \<and> (\<forall>rp rc out err. resolves env repository_path rp
         \<and> run (branch_query rp) = CompletedProcess rc out err \<and> rc \<noteq> 0 \<longrightarrow>
         git_push env run remote None force set_upstream repository_path =
           (BranchQueryFailed (py_strip err), [branch_query rp]))"
proof (intro conjI)
  show "length (snd (git_add env run files all_files interactive patch repository_path)) \<le> 1"
    by (simp add: git_add_staged add_in_repo_length split: sum.splits)
  show "length (snd (git_commit env run message all_files amend repository_path)) \<le> 1"
    by (simp add: git_commit_staged commit_in_repo_length split: sum.splits)
  show "length (snd (git_status env run repository_path)) \<le> 1"
    by (simp add: git_status_staged status_in_repo_length split: sum.splits)
  show "length (snd (git_push env run remote (Some b) force set_upstream repository_path)) \<le> 1"
    by (simp add: git_push_staged push_in_repo_Some_trace split: sum.splits)
  show "snd (git_push env run remote None force set_upstream repository_path) = []
       \<or> (\<exists>rp. resolves env repository_path rp
             \<and> (snd (git_push env run remote None force set_upstream repository_path)
                   = [branch_query rp]
                \<or> (\<exists>br. snd (git_push env run remote None force set_upstream repository_path)
                           = [branch_query rp, (push_cmd remote br force set_upstream, rp, 120)]
                        \<and> take 2 (push_cmd remote br force set_upstream) = [''git'', ''push''])))"
  proof (cases "resolution env repository_path")
    case (Inl r)
    then show ?thesis by (simp add: git_push_staged)
  next
    case (Inr rp)
    then have "resolves env repository_path rp" by (simp add: resolution_Inr_iff)
    moreover have "snd (git_push env run remote None force set_upstream repository_path) =
        snd (push_in_repo run remote None force set_upstream rp)"
      using Inr by (simp add: git_push_staged)
    ultimately show ?thesis
      using push_in_repo_None_trace [of run remote force set_upstream rp]
      by (auto simp: push_cmd_head)
  qed
  show "\<forall>rp. resolves env repository_path rp \<longrightarrow>
         snd (git_push env run remote None force set_upstream repository_path) \<noteq> []"
  proof (intro allI impI)
    fix rp assume "resolves env repository_path rp"
    then have "resolution env repository_path = Inr rp" by (simp add: resolution_Inr_iff)
    then have "snd (git_push env run remote None force set_upstream repository_path) =
        snd (push_in_repo run remote None force set_upstream rp)"
      by (simp add: git_push_staged)
    then show "snd (git_push env run remote None force set_upstream repository_path) \<noteq> []"
      using push_in_repo_None_trace [of run remote force set_upstream rp] by auto
  qed
  show "\<forall>rp out err. resolves env repository_path rp
         \<and> run (branch_query rp) = CompletedProcess 0 out err \<and> py_strip out = [] \<longrightarrow>
         git_push env run remote None force set_upstream repository_path =
           (NoCurrentBranch, [branch_query rp])"
    by (simp add: git_push_staged push_in_repo_no_branch flip: resolution_Inr_iff)
  show "\<forall>rp rc out err. resolves env repository_path rp
         \<and> run (branch_query rp) = CompletedProcess rc out err \<and> rc \<noteq> 0 \<longrightarrow>
         git_push env run remote None force set_upstream repository_path =
           (BranchQueryFailed (py_strip err), [branch_query rp])"
    by (simp add: git_push_staged push_in_repo_query_failed flip: resolution_Inr_iff)
qed

text \<open>
  An instance: a detached head (the lookup prints an empty line), a failing lookup, and a
  lookup that prints \<open>main\<close>.
\<close>

theorem process_invocations_bounded_witness:
  "resolves example_env None ''/home/u/proj'' \<and>
   py_strip ''\<newline>'' = [] \<and>
   git_push example_env (\<lambda>c. CompletedProcess 0 ''\<newline>'' []) ''origin'' None False False None =
     (NoCurrentBranch, [branch_query ''/home/u/proj'']) \<and>
   git_push example_env (\<lambda>c. CompletedProcess 128 [] ''fatal: bad revision\<newline>'') ''origin'' None
       False False None =
     (BranchQueryFailed ''fatal: bad revision'', [branch_query ''/home/u/proj'']) \<and>
   snd (git_push example_env (\<lambda>c. CompletedProcess 0 ''main\<newline>'' []) ''origin'' None False False
          None) =
     [branch_query ''/home/u/proj'', ([''git'', ''push'', ''origin'', ''main''], ''/home/u/proj'', 120)]"
proof -
  have r: "resolves example_env None ''/home/u/proj''"
    by (simp add: resolves_def example_env_def py_truthy_def path_div_def)
  have s: "py_strip ''\<newline>'' = []" "py_strip ''fatal: bad revision\<newline>'' = ''fatal: bad revision''"
    "py_strip ''main\<newline>'' = ''main''"
    by (simp_all add: py_strip_def py_lstrip_def py_rstrip_def py_isspace_def)
  have t: "snd (git_push example_env (\<lambda>c. CompletedProcess 0 ''main\<newline>'' []) ''origin'' None
                  False False None) =
     [branch_query ''/home/u/proj'', ([''git'', ''push'', ''origin'', ''main''], ''/home/u/proj'', 120)]"
    using r s
    by (simp add: git_push_staged push_in_repo_discovered push_cmd_cases
          flip: resolution_Inr_iff)
  from process_invocations_bounded
         [where env = example_env and run = "\<lambda>c. CompletedProcess 0 ''\<newline>'' []"
            and repository_path = None and remote = "''origin''" and force = False
            and set_upstream = False]
       process_invocations_bounded
         [where env = example_env
            and run = "\<lambda>c. CompletedProcess 128 [] ''fatal: bad revision\<newline>''"
            and repository_path = None and remote = "''origin''" and force = False
            and set_upstream = False]
       r s t
  show ?thesis by simp
qed

text \<open>
  C5. A \<open>git_commit\<close> call whose message is empty, or holds only whitespace, returns the
  \<open>EmptyMessage\<close> error (status \<open>error\<close>, message \<open>Commit message cannot be empty\<close>)
  whatever the file system, the executor and the other parameters are, and spawns no
  process. The result does not depend on the file system, not even on one whose every
  operation raises: the test comes before the repository is resolved.
\<close>

theorem git_commit_empty_message:
  assumes "py_strip message = []"
  shows "git_commit env run message all_files amend repository_path =
           ([(''status'', ''error''), (''message'', ''Commit message cannot be empty'')], [])"
  using assms by (simp add: git_commit_def)

text \<open>
  An instance: a message of one blank, with a repository path that does not exist.
\<close>

theorem git_commit_empty_message_witness:
  "py_strip '' '' = [] \<and>
   git_commit example_env (\<lambda>c. TimeoutExpired) '' '' True True (Some ''missing'') =
     ([(''status'', ''error''), (''message'', ''Commit message cannot be empty'')], [])"
  using git_commit_empty_message
          [of "'' ''" example_env "\<lambda>c. TimeoutExpired" True True "Some ''missing''"]
  by (simp add: py_strip_def py_lstrip_def py_rstrip_def py_isspace_def)

text \<open>
  C6. In a resolved repository, \<open>git_push\<close> with \<open>force\<close> and \<open>set_upstream\<close> runs
  \<open>git push --force -u remote branch\<close>: the force flag before the upstream flag, remote
  and branch last. Without \<open>set_upstream\<close> remote and branch follow the subcommand, or
  the force flag when \<open>force\<close> is set. The same holds when the branch is the one the
  lookup has found.
\<close>

theorem git_push_argument_order:
  assumes "resolves env repository_path rp"
  shows "snd (git_push env run remote (Some b) True True repository_path) =
           [([''git'', ''push'', ''--force'', ''-u'', remote, b], rp, 120)]
       \<and> snd (git_push env run remote (Some b) True False repository_path) =
           [([''git'', ''push'', ''--force'', remote, b], rp, 120)]
       \<and> snd (git_push env run remote (Some b) False False repository_path) =
           [([''git'', ''push'', remote, b], rp, 120)]
       \<and> (run (branch_query rp) = CompletedProcess 0 out err \<and> py_strip out \<noteq> [] \<longrightarrow>
            snd (git_push env run remote None True True repository_path) =
              [branch_query rp,
               ([''git'', ''push'', ''--force'', ''-u'', remote, py_strip out], rp, 120)]
          \<and> snd (git_push env run remote None True False repository_path) =
              [branch_query rp, ([''git'', ''push'', ''--force'', remote, py_strip out], rp, 120)]
          \<and> snd (git_push env run remote None False False repository_path) =
              [branch_query rp, ([''git'', ''push'', remote, py_strip out], rp, 120)])"
proof -
  from assms have "resolution env repository_path = Inr rp"
    by (simp add: resolution_Inr_iff)
  then show ?thesis
    by (simp add: git_push_staged push_in_repo_Some_trace push_in_repo_discovered
          push_cmd_cases)
qed

text \<open>
  An instance with remote \<open>origin\<close> and branch \<open>main\<close>, given and looked up.
\<close>

theorem git_push_argument_order_witness:
  "resolves example_env None ''/home/u/proj'' \<and>
   snd (git_push example_env (\<lambda>c. CompletedProcess 0 ''main\<newline>'' []) ''origin'' (Some ''main'')
          True True None) =
     [([''git'', ''push'', ''--force'', ''-u'', ''origin'', ''main''], ''/home/u/proj'', 120)] \<and>
   py_strip ''main\<newline>'' = ''main'' \<and>
   snd (git_push example_env (\<lambda>c. CompletedProcess 0 ''main\<newline>'' []) ''origin'' None
          True True None) =
     [branch_query ''/home/u/proj'',
      ([''git'', ''push'', ''--force'', ''-u'', ''origin'', ''main''], ''/home/u/proj'', 120)]"
proof -
  have r: "resolves example_env None ''/home/u/proj''"
    by (simp add: resolves_def example_env_def py_truthy_def path_div_def)
  have m: "py_strip ''main\<newline>'' = ''main''"
    by (simp add: py_strip_def py_lstrip_def py_rstrip_def py_isspace_def)
  from git_push_argument_order
         [OF r, of "\<lambda>c. CompletedProcess 0 ''main\<newline>'' []" "''origin''" "''main''"
            "''main\<newline>''" "[]"]
       r m
  show ?thesis by simp
qed

text \<open>
  C7. In a resolved repository the process \<open>git_add\<close> spawns is decided in the order
  \<open>interactive\<close>, \<open>patch\<close>, \<open>all_files\<close>, \<open>files\<close>: with \<open>interactive\<close> the
  vector is \<open>git add --interactive\<close> whatever the other three are, else with
  \<open>patch\<close> it is \<open>git add --patch\<close>, else with \<open>all_files\<close> it is \<open>git add .\<close>,
  else with a non-empty \<open>files\<close> it is \<open>git add\<close> followed by the tokens of
  \<open>files\<close>. The tokens are non-empty, free of whitespace, and together they are the
  non-whitespace characters of \<open>files\<close> in their order. With \<open>interactive\<close> and
  \<open>files = a.txt\<close> the vector holds \<open>--interactive\<close> and not \<open>a.txt\<close>.
\<close>

theorem git_add_precedence:
  assumes "resolves env repository_path rp"
  shows "snd (git_add env run files all_files True patch repository_path) =
           [([''git'', ''add'', ''--interactive''], rp, 30)]
       \<and> snd (git_add env run files all_files False True repository_path) =
           [([''git'', ''add'', ''--patch''], rp, 30)]
       \<and> snd (git_add env run files True False False repository_path) =
           [([''git'', ''add'', ''.''], rp, 30)]
       \<and> (f \<noteq> [] \<longrightarrow>
            snd (git_add env run (Some f) False False False repository_path) =
              [([''git'', ''add''] @ py_split (py_strip f), rp, 30)])
       \<and> (\<forall>t \<in> set (py_split (py_strip f)). t \<noteq> [] \<and> (\<forall>c \<in> set t. \<not> py_isspace c))
       \<and> concat (py_split (py_strip f)) = filter (\<lambda>c. \<not> py_isspace c) f
       \<and> snd (git_add env run (Some ''a.txt'') all_files True patch repository_path) =
           [([''git'', ''add'', ''--interactive''], rp, 30)]
       \<and> ''a.txt'' \<notin> set [''git'', ''add'', ''--interactive'']"
proof -
  from assms have "resolution env repository_path = Inr rp"
    by (simp add: resolution_Inr_iff)
  then have "snd (git_add env run files all_files True patch repository_path) =
           [([''git'', ''add'', ''--interactive''], rp, 30)]"
    and "snd (git_add env run files all_files False True repository_path) =
           [([''git'', ''add'', ''--patch''], rp, 30)]"
    and "snd (git_add env run files True False False repository_path) =
           [([''git'', ''add'', ''.''], rp, 30)]"
    and "f \<noteq> [] \<longrightarrow>
            snd (git_add env run (Some f) False False False repository_path) =
              [([''git'', ''add''] @ py_split (py_strip f), rp, 30)]"
    and "snd (git_add env run (Some ''a.txt'') all_files True patch repository_path) =
           [([''git'', ''add'', ''--interactive''], rp, 30)]"
    by (simp_all add: git_add_staged add_in_repo_trace add_cmd_def py_truthy_def)
  moreover have "\<forall>t \<in> set (py_split (py_strip f)). t \<noteq> [] \<and> (\<forall>c \<in> set t. \<not> py_isspace c)"
    by (rule py_split_tokens)
  moreover have "concat (py_split (py_strip f)) = filter (\<lambda>c. \<not> py_isspace c) f"
    by (simp add: py_split_concat filter_py_strip)
  moreover have "''a.txt'' \<notin> set [''git'', ''add'', ''--interactive'']" by simp
  ultimately show ?thesis by blast
qed

text \<open>
  An instance: all selectors set at once, and two file names separated by two blanks.
\<close>

theorem git_add_precedence_witness:
  "resolves example_env None ''/home/u/proj'' \<and>
   snd (git_add example_env (\<lambda>c. CompletedProcess 0 [] []) (Some ''a.txt'') True True True None) =
     [([''git'', ''add'', ''--interactive''], ''/home/u/proj'', 30)] \<and>
   snd (git_add example_env (\<lambda>c. CompletedProcess 0 [] []) (Some ''a.txt  b.txt '') False False
          False None) =
     [([''git'', ''add'', ''a.txt'', ''b.txt''], ''/home/u/proj'', 30)]"
proof -
  have r: "resolves example_env None ''/home/u/proj''"
    by (simp add: resolves_def example_env_def py_truthy_def path_div_def)
  have s: "py_split (py_strip ''a.txt  b.txt '') = [''a.txt'', ''b.txt'']"
    by (simp add: py_split_def py_strip_def py_lstrip_def py_rstrip_def py_isspace_def)
  from git_add_precedence
         [OF r, of "\<lambda>c. CompletedProcess 0 [] []" "Some ''a.txt''" True True "''a.txt  b.txt ''"]
       r s
  show ?thesis by simp
qed

text \<open>
  C8. In a resolved repository, \<open>git_commit\<close> with \<open>amend\<close> and \<open>all_files\<close> and a
  message that is not blank runs \<open>git commit --amend -a -m message\<close>: both flags right
  after \<open>git commit\<close>, the amend flag first, and the message as one token, unchanged.
\<close>

theorem git_commit_amend_all:
  assumes "resolves env repository_path rp" and "py_strip message \<noteq> []"
  shows "snd (git_commit env run message True True repository_path) =
           [([''git'', ''commit'', ''--amend'', ''-a'', ''-m'', message], rp, 30)]"
proof -
  from assms(1) have "resolution env repository_path = Inr rp"
    by (simp add: resolution_Inr_iff)
  with assms(2) show ?thesis
    by (simp add: git_commit_staged commit_in_repo_trace commit_cmd_cases)
qed

text \<open>
  An instance: a message with runs of blanks inside stays one token.
\<close>

theorem git_commit_amend_all_witness:
  "resolves example_env (Some ''proj'') ''/home/u/proj'' \<and> py_strip ''fix  the   bug'' \<noteq> [] \<and>
   snd (git_commit example_env (\<lambda>c. CompletedProcess 0 [] []) ''fix  the   bug'' True True
          (Some ''proj'')) =
     [([''git'', ''commit'', ''--amend'', ''-a'', ''-m'', ''fix  the   bug''], ''/home/u/proj'', 30)]"
proof -
  have r: "resolves example_env (Some ''proj'') ''/home/u/proj''"
    by (simp add: resolves_def example_env_def py_truthy_def path_div_def)
  have m: "py_strip ''fix  the   bug'' \<noteq> []"
    by (simp add: py_strip_def py_lstrip_def py_rstrip_def py_isspace_def)
  from git_commit_amend_all [OF r m] r m show ?thesis by simp
qed

text \<open>
  C9. In a resolved repository, when the status query exits with code 0, \<open>git_status\<close>
  returns the success dictionary whose \<open>porcelain_output\<close> is the captured stdout
  trimmed: the stdout is that value between two runs of whitespace, and the value, when
  not empty, neither starts nor ends with whitespace. A second call, in any resolved
  repository and with any executor that returns the same stdout with code 0, has the same
  \<open>porcelain_output\<close>.
\<close>

theorem git_status_porcelain_verbatim:
  assumes "resolves env repository_path rp"
    and "run (status_query rp) = CompletedProcess 0 out err"
    and "resolves env' repository_path' rp'"
    and "run' (status_query rp') = CompletedProcess 0 out err'"
  shows "git_status env run repository_path = (status_success rp out, [status_query rp])
       \<and> map_of (fst (git_status env run repository_path)) ''porcelain_output''
           = Some (py_strip out)
       \<and> map_of (fst (git_status env' run' repository_path')) ''porcelain_output''
           = map_of (fst (git_status env run repository_path)) ''porcelain_output''
       \<and> (\<exists>pre suf. out = pre @ py_strip out @ suf
             \<and> (\<forall>c \<in> set pre. py_isspace c) \<and> (\<forall>c \<in> set suf. py_isspace c))
       \<and> (py_strip out \<noteq> [] \<longrightarrow>
             \<not> py_isspace (hd (py_strip out)) \<and> \<not> py_isspace (last (py_strip out)))"
proof -
  from assms(1) have r: "resolution env repository_path = Inr rp"
    by (simp add: resolution_Inr_iff)
  from assms(3) have r': "resolution env' repository_path' = Inr rp'"
    by (simp add: resolution_Inr_iff)
  have a: "git_status env run repository_path = (status_success rp out, [status_query rp])"
    using r assms(2) by (simp add: git_status_staged status_in_repo_def)
  have a': "git_status env' run' repository_path' = (status_success rp' out, [status_query rp'])"
    using r' assms(4) by (simp add: git_status_staged status_in_repo_def)
  have l: "map_of (status_success d out) ''porcelain_output'' = Some (py_strip out)" for d
    by (simp add: status_success_def)
  show ?thesis
    using a a' l py_strip_surroundings [of out] py_strip_hd [of out] py_strip_last [of out]
    by simp
qed

text \<open>
  An instance: two status lines; the leading blank of the first line and the final
  newline are trimmed, the newline between the lines stays.
\<close>

theorem git_status_porcelain_verbatim_witness:
  "resolves example_env None ''/home/u/proj'' \<and>
   resolves example_env (Some ''proj'') ''/home/u/proj'' \<and>
   git_status example_env (\<lambda>c. CompletedProcess 0 '' M src/main.py\<newline>?? notes.txt\<newline>'' [])
       None =
     ([(''status'', ''success''),
       (''repository_path'', ''/home/u/proj''),
       (''porcelain_output'', ''M src/main.py\<newline>?? notes.txt''),
       (''message'', ''Git status retrieved successfully'')],
      [([''git'', ''status'', ''--porcelain''], ''/home/u/proj'', 10)]) \<and>
   map_of (fst (git_status example_env
                  (\<lambda>c. CompletedProcess 0 '' M src/main.py\<newline>?? notes.txt\<newline>'' ''warning'')
                  (Some ''proj''))) ''porcelain_output''
     = Some ''M src/main.py\<newline>?? notes.txt''"
proof -
  have r: "resolves example_env None ''/home/u/proj''"
    by (simp add: resolves_def example_env_def py_truthy_def path_div_def)
  have r': "resolves example_env (Some ''proj'') ''/home/u/proj''"
    by (simp add: resolves_def example_env_def py_truthy_def path_div_def)
  have s: "py_strip '' M src/main.py\<newline>?? notes.txt\<newline>'' = ''M src/main.py\<newline>?? notes.txt''"
    by (simp add: py_strip_def py_lstrip_def py_rstrip_def py_isspace_def)
  from git_status_porcelain_verbatim
         [OF r _ r', of "\<lambda>c. CompletedProcess 0 '' M src/main.py\<newline>?? notes.txt\<newline>'' []"
            "'' M src/main.py\<newline>?? notes.txt\<newline>''" "[]"
            "\<lambda>c. CompletedProcess 0 '' M src/main.py\<newline>?? notes.txt\<newline>'' ''warning''"
            "''warning''"]
       r r' s
  show ?thesis by (simp add: status_success_def status_query_def)
qed

text \<open>
  C10. In every handler the empty string as \<open>repository_path\<close> gives the result and the
  processes of the call without \<open>repository_path\<close>: the current directory is used. The
  result is never the \<open>PathNotFound\<close> error for the empty path.
\<close>

theorem empty_repository_path_is_omitted:
  "git_add env run files all_files interactive patch (Some []) =
     git_add env run files all_files interactive patch None
   \<and> git_commit env run message all_files amend (Some []) =
     git_commit env run message all_files amend None
   \<and> git_push env run remote branch force set_upstream (Some []) =
     git_push env run remote branch force set_upstream None
   \<and> git_status env run (Some []) = git_status env run None
   \<and> fst (git_add env run files all_files interactive patch (Some [])) \<noteq> PathNotFound []
   \<and> fst (git_commit env run message all_files amend (Some [])) \<noteq> PathNotFound []
   \<and> fst (git_push env run remote branch force set_upstream (Some [])) \<noteq> PathNotFound []
   \<and> fst (git_status env run (Some [])) \<noteq> PathNotFound []"
proof -
  have eqs: "git_add env run files all_files interactive patch (Some []) =
       git_add env run files all_files interactive patch None"
    "git_commit env run message all_files amend (Some []) =
       git_commit env run message all_files amend None"
    "git_push env run remote branch force set_upstream (Some []) =
       git_push env run remote branch force set_upstream None"
    "git_status env run (Some []) = git_status env run None"
    by (simp_all add: git_add_staged git_commit_staged git_push_staged git_status_staged
          resolution_empty)
  have "fst (git_add env run files all_files interactive patch None) \<noteq> PathNotFound []"
    using resolution_cwd_not_PathNotFound [of env "[]"]
    by (auto simp: git_add_staged in_repo_not_PathNotFound split: sum.splits)
  moreover
  have "fst (git_commit env run message all_files amend None) \<noteq> PathNotFound []"
    using resolution_cwd_not_PathNotFound [of env "[]"]
    by (auto simp: git_commit_staged in_repo_not_PathNotFound PathNotFound_distinct split: sum.splits)
  moreover
  have "fst (git_push env run remote branch force set_upstream None) \<noteq> PathNotFound []"
    using resolution_cwd_not_PathNotFound [of env "[]"]
    by (auto simp: git_push_staged in_repo_not_PathNotFound split: sum.splits)
  moreover
  have "fst (git_status env run None) \<noteq> PathNotFound []"
    using resolution_cwd_not_PathNotFound [of env "[]"]
    by (auto simp: git_status_staged in_repo_not_PathNotFound split: sum.splits)
  ultimately show ?thesis using eqs by simp
qed

end
